theory Spec2Isabelle
  imports Main
begin

section \<open>Dozenal: base-12 converter and expression calculator\<close>

text \<open>
  A shallow embedding of \<^verbatim>\<open>dozenal_decimal_converter.py\<close> and \<^verbatim>\<open>dozenal_calc.py\<close>.
  Python's unbounded \<^verbatim>\<open>int\<close> is \<^typ>\<open>int\<close>; a \<^verbatim>\<open>str\<close> is a \<^typ>\<open>string\<close> of ASCII
  characters; every \<^verbatim>\<open>raise\<close> is a value \<open>Inl e\<close> of a sum type.
\<close>

subsection \<open>Errors\<close>

text \<open>
  One constructor for each exception the two modules (and the library calls they make)
  can raise. The \<^verbatim>\<open>ValueError\<close>s are told apart by their message.
\<close>

datatype error =
    EmptyString                 \<comment> \<open>\<^verbatim>\<open>ValueError("empty string")\<close>\<close>
  | InvalidDigit char           \<comment> \<open>\<^verbatim>\<open>ValueError("invalid dozenal digit: ...")\<close>\<close>
  | InvalidFormat               \<comment> \<open>\<^verbatim>\<open>ValueError("invalid dozenal format: more than one decimal point")\<close>\<close>
  | EmptyExpression             \<comment> \<open>\<^verbatim>\<open>ValueError("expression is empty")\<close>\<close>
  | NegativeFracPrecision       \<comment> \<open>\<^verbatim>\<open>ValueError("frac_precision must be non-negative")\<close>\<close>
  | UnexpectedCharacter char    \<comment> \<open>\<^verbatim>\<open>ValueError("unexpected character ... in expression")\<close>\<close>
  | InvalidNumber               \<comment> \<open>\<^verbatim>\<open>ValueError("invalid dozenal number in expression")\<close>\<close>
  | MismatchedParentheses       \<comment> \<open>\<^verbatim>\<open>ValueError("mismatched parentheses")\<close>\<close>
  | IncompleteExpression        \<comment> \<open>\<^verbatim>\<open>ValueError("incomplete expression")\<close>\<close>
  | NotSingleValue              \<comment> \<open>\<^verbatim>\<open>ValueError("expression did not reduce to single value")\<close>\<close>
  | UnsupportedOperator string  \<comment> \<open>\<^verbatim>\<open>ValueError("unsupported operator ...")\<close>\<close>
  | KeyError string             \<comment> \<open>a failed lookup in \<^verbatim>\<open>_PRECEDENCE\<close>\<close>
  | IndexError                  \<comment> \<open>string index out of range\<close>
  | ZeroDivisionError           \<comment> \<open>integer division by zero\<close>
  | DecimalDivisionByZero       \<comment> \<open>\<^verbatim>\<open>decimal.DivisionByZero\<close>: \<open>x / 0\<close> with \<open>x \<noteq> 0\<close>\<close>
  | DecimalDivisionUndefined    \<comment> \<open>\<^verbatim>\<open>decimal.InvalidOperation\<close> for \<open>0 / 0\<close>\<close>
  | DecimalDivisionImpossible   \<comment> \<open>\<^verbatim>\<open>decimal.InvalidOperation\<close>: quotient of \<open>//\<close> too large\<close>
  | DecimalOverflow             \<comment> \<open>\<^verbatim>\<open>decimal.Overflow\<close>: exponent above \<open>Emax\<close>\<close>

fun is_error :: "error + 'a \<Rightarrow> bool" where
  "is_error (Inl e) = True"
| "is_error (Inr v) = False"

subsection \<open>Strings\<close>

text \<open>
  \<^verbatim>\<open>str.isspace\<close>, \<^verbatim>\<open>str.strip\<close> and \<^verbatim>\<open>str.upper\<close> on ASCII text. Python counts the
  code points 9 to 13 and 28 to 32 as white space.
\<close>

definition isspace :: "char \<Rightarrow> bool" where
  "isspace c = (let n = of_char c :: nat in (9 \<le> n \<and> n \<le> 13) \<or> (28 \<le> n \<and> n \<le> 32))"

definition strip :: "string \<Rightarrow> string" where
  "strip s = rev (dropWhile isspace (rev (dropWhile isspace s)))"

definition upper_char :: "char \<Rightarrow> char" where
  "upper_char c = (let n = of_char c :: nat in if 97 \<le> n \<and> n \<le> 122 then char_of (n - 32) else c)"

definition upper :: "string \<Rightarrow> string" where
  "upper s = map upper_char s"

text \<open>\<^verbatim>\<open>s.split(".")\<close>: the pieces between the points, always at least one piece.\<close>

fun split_dot :: "string \<Rightarrow> string list" where
  "split_dot [] = [[]]"
| "split_dot (c # s) =
     (if c = CHR ''.'' then [] # split_dot s
      else (case split_dot s of p # ps \<Rightarrow> (c # p) # ps | [] \<Rightarrow> [[c]]))"

subsection \<open>The digit alphabet and integers in base 12\<close>

definition DOZENAL_DIGITS :: string where
  "DOZENAL_DIGITS = ''0123456789TE''"

text \<open>\<^verbatim>\<open>_DOZENAL_DIGITS.index(ch)\<close>; \<open>None\<close> is \<^verbatim>\<open>ch not in _DOZENAL_DIGITS\<close>.\<close>

fun index_of :: "char \<Rightarrow> string \<Rightarrow> nat option" where
  "index_of c [] = None"
| "index_of c (x # xs) = (if c = x then Some 0 else map_option Suc (index_of c xs))"

definition digit_index :: "char \<Rightarrow> nat option" where
  "digit_index ch = index_of ch DOZENAL_DIGITS"

text \<open>
  \<^verbatim>\<open>_int_to_base12\<close>: the loop appends the digit of \<open>n mod 12\<close> (an index in 0..11) and
  goes on with \<open>n div 12\<close>; the digits come out reversed.
\<close>

function int_to_base12_loop :: "int \<Rightarrow> string \<Rightarrow> string" where
  "int_to_base12_loop n digits =
     (if n > 0 then int_to_base12_loop (n div 12) (digits @ [DOZENAL_DIGITS ! nat (n mod 12)])
      else digits)"
  by pat_completeness auto
termination
  by (relation "measure (\<lambda>(n, digits). nat n)") auto

declare int_to_base12_loop.simps [simp del]

definition int_to_base12 :: "int \<Rightarrow> string" where
  "int_to_base12 n = (if n = 0 then ''0'' else rev (int_to_base12_loop n []))"

text \<open>\<^verbatim>\<open>_int_from_base12\<close>: \<open>total = total * 12 + index\<close>, failing at the first foreign character.\<close>

fun int_from_base12_loop :: "string \<Rightarrow> int \<Rightarrow> error + int" where
  "int_from_base12_loop [] tot = Inr tot"
| "int_from_base12_loop (ch # s) tot =
     (case digit_index ch of
        None \<Rightarrow> Inl (InvalidDigit ch)
      | Some k \<Rightarrow> int_from_base12_loop s (tot * 12 + int k))"

definition int_from_base12 :: "string \<Rightarrow> error + int" where
  "int_from_base12 s = int_from_base12_loop s 0"

text \<open>\<^verbatim>\<open>_DOZENAL_DIGITS[digit]\<close> with Python's indexing: a negative index counts from the end.\<close>

definition digit_char :: "int \<Rightarrow> error + char" where
  "digit_char i =
     (let n = int (length DOZENAL_DIGITS); j = (if i < 0 then n + i else i)
      in if 0 \<le> j \<and> j < n then Inr (DOZENAL_DIGITS ! nat j) else Inl IndexError)"

subsection \<open>Sequencing fallible steps\<close>

fun bind :: "error + 'a \<Rightarrow> ('a \<Rightarrow> error + 'b) \<Rightarrow> error + 'b" where
  "bind (Inl e) f = Inl e"
| "bind (Inr v) f = f v"

subsection \<open>The decimal module\<close>

text \<open>
  A finite \<^verbatim>\<open>decimal.Decimal\<close> is a coefficient and an exponent, standing for
  \<open>coeff * 10 ^ expo\<close>; the sign is the coefficient's, so the two zeros of the library are one
  here (the code compares with \<^verbatim>\<open><\<close> and \<^verbatim>\<open>==\<close> only, which do not tell them apart).
  Infinities and NaNs are left out: no operation below produces one, since the default
  context traps the signals that would.

  The context is the default one but for its precision, which both modules assign:
  \<^verbatim>\<open>rounding=ROUND_HALF_EVEN, Emin=-999999, Emax=999999, clamp=0\<close>, with the traps
  \<^verbatim>\<open>InvalidOperation\<close>, \<^verbatim>\<open>DivisionByZero\<close> and \<^verbatim>\<open>Overflow\<close>. The precision is the
  argument \<open>prec\<close> of each operation.
\<close>

datatype decimal = Decimal (coeff: int) (expo: int)

definition Emax :: int where
  "Emax = 999999"

definition Emin :: int where
  "Emin = - 999999"

definition Etiny :: "nat \<Rightarrow> int" where
  "Etiny prec = Emin - int prec + 1"

definition Etop :: "nat \<Rightarrow> int" where
  "Etop prec = Emax - int prec + 1"

text \<open>The number of decimal digits of a coefficient's magnitude: \<^verbatim>\<open>len(self._int)\<close>.\<close>

function ndigits :: "int \<Rightarrow> nat" where
  "ndigits n = (if n < 10 then 1 else Suc (ndigits (n div 10)))"
  by pat_completeness auto
termination
  by (relation "measure (\<lambda>n. nat n)") auto

declare ndigits.simps [simp del]

text \<open>Dropping the last \<open>k\<close> digits of a coefficient's magnitude, rounding half to even.\<close>

definition round_half_even :: "int \<Rightarrow> nat \<Rightarrow> int" where
  "round_half_even c k =
     (let q = c div 10 ^ k; r = c mod 10 ^ k
      in if 2 * r > 10 ^ k \<or> (2 * r = 10 ^ k \<and> odd q) then q + 1 else q)"

text \<open>
  \<^verbatim>\<open>Decimal._fix\<close>: round the exact result of an operation to the context. A result
  whose adjusted exponent is above \<open>Emax\<close> raises \<^verbatim>\<open>Overflow\<close>; one below \<open>Emin\<close> is
  rounded at \<open>Etiny\<close> (a subnormal, possibly zero), which raises nothing.
\<close>

definition dec_fix :: "nat \<Rightarrow> decimal \<Rightarrow> error + decimal" where
  "dec_fix prec d =
     (let c = coeff d; e = expo d in
      if c = 0 then Inr (Decimal 0 (min (max e (Etiny prec)) Emax))
      else
        let n = \<bar>c\<bar>;
            exp_min0 = int (ndigits n) + e - int prec
        in if exp_min0 > Etop prec then Inl DecimalOverflow
           else
             let exp_min = max exp_min0 (Etiny prec)
             in if e < exp_min then
                  let q = round_half_even n (nat (exp_min - e));
                      carry = (ndigits q > prec);
                      q' = (if carry then q div 10 else q);
                      exp' = (if carry then exp_min + 1 else exp_min)
                  in if exp' > Etop prec then Inl DecimalOverflow
                     else Inr (Decimal (sgn c * q') exp')
                else Inr d)"

text \<open>\<^verbatim>\<open>__mul__\<close>, \<^verbatim>\<open>__add__\<close>, \<^verbatim>\<open>__sub__\<close>, \<^verbatim>\<open>__abs__\<close>: the exact result, then \<^verbatim>\<open>_fix\<close>.\<close>

definition dec_mul :: "nat \<Rightarrow> decimal \<Rightarrow> decimal \<Rightarrow> error + decimal" where
  "dec_mul prec a b = dec_fix prec (Decimal (coeff a * coeff b) (expo a + expo b))"

definition dec_add :: "nat \<Rightarrow> decimal \<Rightarrow> decimal \<Rightarrow> error + decimal" where
  "dec_add prec a b =
     (let e = min (expo a) (expo b)
      in dec_fix prec (Decimal (coeff a * 10 ^ nat (expo a - e) + coeff b * 10 ^ nat (expo b - e)) e))"

definition dec_neg :: "decimal \<Rightarrow> decimal" where
  "dec_neg a = Decimal (- coeff a) (expo a)"

definition dec_sub :: "nat \<Rightarrow> decimal \<Rightarrow> decimal \<Rightarrow> error + decimal" where
  "dec_sub prec a b = dec_add prec a (dec_neg b)"

definition dec_abs :: "nat \<Rightarrow> decimal \<Rightarrow> error + decimal" where
  "dec_abs prec a = dec_fix prec (Decimal \<bar>coeff a\<bar> (expo a))"

text \<open>
  \<^verbatim>\<open>__truediv__\<close>: a quotient of more than \<open>prec\<close> digits, made odd in its last place
  when the division leaves a remainder, so that \<^verbatim>\<open>_fix\<close> rounds it correctly; an exact
  quotient loses its trailing zeros down to the ideal exponent.
\<close>

function strip_zeros :: "int \<Rightarrow> int \<Rightarrow> int \<Rightarrow> int \<times> int" where
  "strip_zeros c e ideal =
     (if e < ideal \<and> c mod 10 = 0 then strip_zeros (c div 10) (e + 1) ideal else (c, e))"
  by pat_completeness auto
termination
  by (relation "measure (\<lambda>(c, e, ideal). nat (ideal - e))") auto

declare strip_zeros.simps [simp del]

definition dec_div :: "nat \<Rightarrow> decimal \<Rightarrow> decimal \<Rightarrow> error + decimal" where
  "dec_div prec a b =
     (if coeff b = 0 then
        (if coeff a = 0 then Inl DecimalDivisionUndefined else Inl DecimalDivisionByZero)
      else if coeff a = 0 then dec_fix prec (Decimal 0 (expo a - expo b))
      else
        let sign = sgn (coeff a) * sgn (coeff b);
            n1 = \<bar>coeff a\<bar>;
            n2 = \<bar>coeff b\<bar>;
            shift = int (ndigits n2) - int (ndigits n1) + int prec + 1;
            e = expo a - expo b - shift;
            x = (if shift \<ge> 0 then n1 * 10 ^ nat shift else n1);
            y = (if shift \<ge> 0 then n2 else n2 * 10 ^ nat (- shift));
            q = x div y;
            r = x mod y
        in if r \<noteq> 0 then dec_fix prec (Decimal (sign * (if q mod 5 = 0 then q + 1 else q)) e)
           else (case strip_zeros q e (expo a - expo b) of
                   (q', e') \<Rightarrow> dec_fix prec (Decimal (sign * q') e')))"

text \<open>
  \<^verbatim>\<open>__floordiv__\<close>: the integer part of the quotient, with exponent 0 and no rounding;
  a quotient of more than \<open>prec\<close> digits raises \<^verbatim>\<open>InvalidOperation\<close>.
\<close>

definition adjusted :: "decimal \<Rightarrow> int" where
  "adjusted a = int (ndigits \<bar>coeff a\<bar>) + expo a - 1"

definition dec_floordiv :: "nat \<Rightarrow> decimal \<Rightarrow> decimal \<Rightarrow> error + decimal" where
  "dec_floordiv prec a b =
     (if coeff b = 0 then
        (if coeff a = 0 then Inl DecimalDivisionUndefined else Inl DecimalDivisionByZero)
      else
        let sign = sgn (coeff a) * sgn (coeff b);
            expdiff = adjusted a - adjusted b
        in if coeff a = 0 \<or> expdiff \<le> - 2 then Inr (Decimal 0 0)
           else if expdiff \<le> int prec then
             let n1 = \<bar>coeff a\<bar>;
                 n2 = \<bar>coeff b\<bar>;
                 x = (if expo a \<ge> expo b then n1 * 10 ^ nat (expo a - expo b) else n1);
                 y = (if expo a \<ge> expo b then n2 else n2 * 10 ^ nat (expo b - expo a));
                 q = x div y
             in if q < 10 ^ prec then Inr (Decimal (sign * q) 0)
                else Inl DecimalDivisionImpossible
           else Inl DecimalDivisionImpossible)"

text \<open>\<^verbatim>\<open>int(d)\<close>: truncation towards zero.\<close>

definition dec_to_int :: "decimal \<Rightarrow> int" where
  "dec_to_int a =
     (if expo a \<ge> 0 then coeff a * 10 ^ nat (expo a)
      else sgn (coeff a) * (\<bar>coeff a\<bar> div 10 ^ nat (- expo a)))"

subsection \<open>Floats and fractions\<close>

text \<open>
  A finite Python \<^verbatim>\<open>float\<close> is a binary fraction \<open>m * 2 ^ e\<close>, given by its two
  integers. \<^verbatim>\<open>Fraction(value)\<close> is its exact ratio in lowest terms, a pair of a numerator
  and a positive denominator.
\<close>

definition float_as_integer_ratio :: "int \<Rightarrow> int \<Rightarrow> int \<times> int" where
  "float_as_integer_ratio m e =
     (if e \<ge> 0 then (m * 2 ^ nat e, 1)
      else let g = gcd m (2 ^ nat (- e)) in (m div g, 2 ^ nat (- e) div g))"

text \<open>
  \<^verbatim>\<open>Fraction.limit_denominator\<close>: the loop walks the continued fraction of \<open>n / d\<close>
  until the next convergent's denominator would pass the bound. \<open>d\<close> stays positive in
  the loop (the last convergent is the fraction itself, whose denominator is over the
  bound); at \<open>d = 0\<close> Python's \<^verbatim>\<open>n//d\<close> would raise.
\<close>

function limit_loop ::
  "int \<Rightarrow> int \<Rightarrow> int \<Rightarrow> int \<Rightarrow> int \<Rightarrow> int \<Rightarrow> int \<Rightarrow> error + (int \<times> int \<times> int \<times> int)" where
  "limit_loop max_denominator p0 q0 p1 q1 n d =
     (if d \<le> 0 then Inl ZeroDivisionError
      else
        let a = n div d; q2 = q0 + a * q1
        in if q2 > max_denominator then Inr (p0, q0, p1, q1)
           else limit_loop max_denominator p1 q1 (p0 + a * p1) q2 d (n - a * d))"
  by pat_completeness auto
termination
proof (relation "measure (\<lambda>(m, p0, q0, p1, q1, n, d). nat d)")
  fix max_denominator p0 q0 p1 q1 n d :: int and a q2 :: int
  assume "\<not> d \<le> 0" and "a = n div d"
  then have "n - a * d = n mod d" and "n mod d < d"
    by (simp_all add: minus_div_mult_eq_mod)
  then show "((max_denominator, p1, q1, p0 + a * p1, q2, d, n - a * d),
              (max_denominator, p0, q0, p1, q1, n, d))
            \<in> measure (\<lambda>(m, p0, q0, p1, q1, n, d). nat d)"
    using \<open>\<not> d \<le> 0\<close> by simp
qed simp

declare limit_loop.simps [simp del]

text \<open>\<^verbatim>\<open>abs(p2/q2 - n/d) <= abs(p1/q1 - n/d)\<close> for positive denominators, cross-multiplied.\<close>

definition closer_or_equal :: "int \<times> int \<Rightarrow> int \<times> int \<Rightarrow> int \<times> int \<Rightarrow> bool" where
  "closer_or_equal b2 b1 self =
     (case (b2, b1, self) of ((p2, q2), (p1, q1), (n, d)) \<Rightarrow>
        \<bar>p2 * d - n * q2\<bar> * q1 \<le> \<bar>p1 * d - n * q1\<bar> * q2)"

definition Fraction :: "int \<Rightarrow> int \<Rightarrow> int \<times> int" where
  "Fraction n d = (let g = gcd n d in (n div g, d div g))"

definition limit_denominator :: "int \<Rightarrow> int \<times> int \<Rightarrow> error + (int \<times> int)" where
  "limit_denominator max_denominator self =
     (case self of (n, d) \<Rightarrow>
        if d \<le> max_denominator then Inr (n, d)
        else bind (limit_loop max_denominator 0 1 1 0 n d) (\<lambda>(p0, q0, p1, q1).
          if q1 = 0 then Inl ZeroDivisionError
          else
            let k = (max_denominator - q0) div q1;
                bound1 = Fraction (p0 + k * p1) (q0 + k * q1);
                bound2 = Fraction p1 q1
            in if closer_or_equal bound2 bound1 (n, d) then Inr bound2 else Inr bound1))"

subsection \<open>The converter\<close>

text \<open>
  The argument of \<^verbatim>\<open>decimal_to_dozenal\<close> is an \<^verbatim>\<open>int\<close>, a \<^verbatim>\<open>float\<close> or a
  \<^verbatim>\<open>Decimal\<close>. \<^verbatim>\<open>dozenal_to_decimal\<close> returns an \<^verbatim>\<open>int\<close> or a \<^verbatim>\<open>Decimal\<close>: none of
  its \<^verbatim>\<open>return\<close> statements yields a float, so its results have a type of their own, which
  \<open>of_number\<close> passes on as an argument.
\<close>

datatype pyvalue = PyInt int | PyFloat int int | PyDecimal decimal

datatype number = IntNum int | DecimalNum decimal

fun of_number :: "number \<Rightarrow> pyvalue" where
  "of_number (IntNum n) = PyInt n"
| "of_number (DecimalNum d) = PyDecimal d"

text \<open>
  The digit loop of \<^verbatim>\<open>decimal_to_dozenal\<close> (lines 95 to 101): at most \<open>frac_precision\<close>
  rounds of multiplying by 12, taking the integer part as the digit and subtracting it,
  in \<^verbatim>\<open>Decimal\<close> arithmetic at the context's precision.
\<close>

fun digits_loop :: "nat \<Rightarrow> nat \<Rightarrow> decimal \<Rightarrow> string \<Rightarrow> error + string" where
  "digits_loop prec 0 frac_part digits = Inr digits"
| "digits_loop prec (Suc k) frac_part digits =
     bind (dec_mul prec frac_part (Decimal 12 0)) (\<lambda>frac_part.
     bind (dec_floordiv prec frac_part (Decimal 1 0)) (\<lambda>q.
       let digit = dec_to_int q in
       bind (digit_char digit) (\<lambda>ch.
       bind (dec_sub prec frac_part (Decimal digit 0)) (\<lambda>frac_part.
         if coeff frac_part = 0 then Inr (digits @ [ch])
         else digits_loop prec k frac_part (digits @ [ch])))))"

text \<open>Lines 85 to 102: the rendering of a \<^verbatim>\<open>Decimal\<close>, once the precision is set.\<close>

definition render_decimal :: "nat \<Rightarrow> decimal \<Rightarrow> int \<Rightarrow> error + string" where
  "render_decimal prec dec frac_precision =
     (let sign = (if coeff dec < 0 then ''-'' else []) in
      bind (dec_abs prec dec) (\<lambda>dec.
      bind (dec_floordiv prec dec (Decimal 1 0)) (\<lambda>q.
        let integer_part = dec_to_int q in
        bind (dec_sub prec dec (Decimal integer_part 0)) (\<lambda>frac_part.
          let integer_digits = int_to_base12 integer_part in
          if frac_precision \<le> 0 \<or> coeff frac_part = 0 then Inr (sign @ integer_digits)
          else bind (digits_loop prec (nat frac_precision) frac_part []) (\<lambda>digits.
                 Inr (sign @ integer_digits @ ''.'' @ digits))))))"

text \<open>
  \<^verbatim>\<open>getcontext().prec = max(28, frac_precision * 3)\<close>. The context is the module's global
  state: \<^verbatim>\<open>decimal_to_dozenal\<close> takes the precision in force and returns, beside its
  result, the precision it leaves behind.
\<close>

definition context_prec :: "int \<Rightarrow> nat" where
  "context_prec frac_precision = nat (max 28 (frac_precision * 3))"

definition decimal_to_dozenal :: "nat \<Rightarrow> pyvalue \<Rightarrow> int \<Rightarrow> (error + string) \<times> nat" where
  "decimal_to_dozenal ctx val frac_precision =
     (case val of
        PyInt n \<Rightarrow> (Inr ((if n < 0 then ''-'' else []) @ int_to_base12 \<bar>n\<bar>), ctx)
      | PyFloat m e \<Rightarrow>
          (case limit_denominator (10 ^ 9) (float_as_integer_ratio m e) of
             Inl err \<Rightarrow> (Inl err, ctx)
           | Inr (numerator, denominator) \<Rightarrow>
               let prec = context_prec frac_precision in
               (bind (dec_div prec (Decimal numerator 0) (Decimal denominator 0)) (\<lambda>dec.
                  render_decimal prec dec frac_precision), prec))
      | PyDecimal d \<Rightarrow>
          let prec = context_prec frac_precision in
          (render_decimal prec d frac_precision, prec))"

text \<open>
  The fraction loop of \<^verbatim>\<open>dozenal_to_decimal\<close> (lines 132 to 136), at the precision \<open>prec\<close>
  of the context in force.
\<close>

fun frac_loop :: "nat \<Rightarrow> string \<Rightarrow> decimal \<Rightarrow> decimal \<Rightarrow> error + decimal" where
  "frac_loop prec [] frac_total pw = Inr frac_total"
| "frac_loop prec (ch # s) frac_total pw =
     (case digit_index ch of
        None \<Rightarrow> Inl (InvalidDigit ch)
      | Some k \<Rightarrow>
          bind (dec_mul prec pw (Decimal 12 0)) (\<lambda>pw.
          bind (dec_div prec (Decimal (int k) 0) pw) (\<lambda>quot.
          bind (dec_add prec frac_total quot) (\<lambda>frac_total.
            frac_loop prec s frac_total pw))))"

definition dozenal_to_decimal :: "nat \<Rightarrow> string \<Rightarrow> error + number" where
  "dozenal_to_decimal prec s0 =
     (let s = upper (strip s0) in
      if s = [] then Inl EmptyString
      else
        let sign = (if hd s = CHR ''-'' then - 1 else 1);
            s = (if hd s = CHR ''-'' then tl s else s);
            parts = split_dot s
        in if length parts > 2 then Inl InvalidFormat
           else
             let int_str = (if hd parts = [] then ''0'' else hd parts) in
             bind (int_from_base12 int_str) (\<lambda>integer_value.
               if length parts = 1 then Inr (IntNum (sign * integer_value))
               else
                 bind (frac_loop prec (parts ! 1) (Decimal 0 0) (Decimal 1 0)) (\<lambda>frac_total.
                 bind (dec_add prec (Decimal integer_value 0) frac_total) (\<lambda>magnitude.
                 bind (dec_mul prec (Decimal sign 0) magnitude) (\<lambda>r.
                   Inr (DecimalNum r))))))"
subsection \<open>The calculator: tokens\<close>

text \<open>
  A token is a pair of a kind and a value in the source; the four kinds are the four
  constructors. A raw token carries the text of a number, a converted one its
  \<^verbatim>\<open>Decimal\<close>. An operator or a parenthesis carries its text.
\<close>

datatype 'a token = Number 'a | Operator string | LParen string | RParen string

text \<open>
  The two \<^verbatim>\<open>while\<close> loops of \<^verbatim>\<open>_parse_number\<close>: skip a run of dozenal digits
  (\<^verbatim>\<open>_ALLOWED_DIGITS\<close> is the set of \<^verbatim>\<open>_DOZENAL_DIGITS\<close>).
\<close>

function scan_digits :: "string \<Rightarrow> nat \<Rightarrow> nat" where
  "scan_digits expression i =
     (if i < length expression \<and> expression ! i \<in> set DOZENAL_DIGITS
      then scan_digits expression (i + 1) else i)"
  by pat_completeness auto
termination
  by (relation "measure (\<lambda>(expression, i). length expression - i)") auto

declare scan_digits.simps [simp del]

text \<open>
  \<^verbatim>\<open>_parse_number\<close>: an optional sign, digits, an optional point and more digits; the
  text from \<open>start\<close> and the index after it. Reading \<^verbatim>\<open>expression[start]\<close> past the end
  would raise.
\<close>

definition parse_number :: "string \<Rightarrow> nat \<Rightarrow> error + (string \<times> nat)" where
  "parse_number expression start =
     (if start \<ge> length expression then Inl IndexError
      else
        let i0 = (if expression ! start \<in> set ''+-'' then start + 1 else start);
            i1 = scan_digits expression i0;
            digits_seen = (i1 > i0);
            has_point = (i1 < length expression \<and> expression ! i1 = CHR ''.'');
            i2 = (if has_point then scan_digits expression (i1 + 1) else i1);
            fractional_seen = (has_point \<and> i2 > i1 + 1)
        in if \<not> (digits_seen \<or> fractional_seen) then Inl InvalidNumber
           else Inr (take (i2 - start) (drop start expression), i2))"

text \<open>
  \<^verbatim>\<open>_tokenize\<close>: the loop over the index \<open>i\<close>, with the flag \<^verbatim>\<open>can_start_number\<close> and
  the tokens so far.
\<close>

function tokenize_loop :: "string \<Rightarrow> nat \<Rightarrow> bool \<Rightarrow> string token list \<Rightarrow> error + string token list" where
  "tokenize_loop expression i can_start_number tokens =
     (if i < length expression then
        let ch = expression ! i in
        if isspace ch then tokenize_loop expression (i + 1) can_start_number tokens
        else if ch \<in> set ''+-'' \<and> can_start_number then
          let next_char = (if i + 1 < length expression then [expression ! (i + 1)] else [])
          in if next_char = ''('' then
               tokenize_loop expression (i + 1) True (tokens @ [Number ''0'', Operator [ch]])
             else
               (case parse_number expression i of
                  Inl err \<Rightarrow> Inl err
                | Inr (tok, j) \<Rightarrow> tokenize_loop expression j False (tokens @ [Number tok]))
        else if ch \<in> set ''+-*/'' then
          tokenize_loop expression (i + 1) True (tokens @ [Operator [ch]])
        else if ch = CHR ''('' then
          tokenize_loop expression (i + 1) True (tokens @ [LParen [ch]])
        else if ch = CHR '')'' then
          tokenize_loop expression (i + 1) False (tokens @ [RParen [ch]])
        else if ch \<in> set DOZENAL_DIGITS then
          (case parse_number expression i of
             Inl err \<Rightarrow> Inl err
           | Inr (tok, j) \<Rightarrow> tokenize_loop expression j False (tokens @ [Number tok]))
        else Inl (UnexpectedCharacter ch)
      else Inr tokens)"
  by pat_completeness auto
termination
proof (relation "measure (\<lambda>(expression, i, can_start_number, tokens). length expression - i)")
  have scan: "i \<le> scan_digits e i" for e i
  proof (induction e i rule: scan_digits.induct)
    case (1 expression i)
    then show ?case
      by (subst scan_digits.simps) (auto simp: Suc_leD)
  qed
  have adv: "i < j" if "parse_number e i = Inr (tok, j)" for e i tok j
  proof -
    define i0 where "i0 = (if e ! i \<in> set ''+-'' then i + 1 else i)"
    define i1 where "i1 = scan_digits e i0"
    define i2 where "i2 = (if i1 < length e \<and> e ! i1 = CHR ''.'' then scan_digits e (i1 + 1) else i1)"
    have a: "i \<le> i0" "i0 \<le> i1" "i1 \<le> i2"
      using scan [of i0 e] scan [of "i1 + 1" e] by (auto simp: i0_def i1_def i2_def)
    have "j = i2" and "i0 < i1 \<or> i1 + 1 < i2"
      using that
      by (auto simp: parse_number_def Let_def i0_def i1_def i2_def split: if_splits)
    with a show ?thesis by auto
  qed
  fix expression :: string and i :: nat and can_start_number :: bool
    and tokens :: "string token list" and x :: char and xa :: string
    and x2 :: "string \<times> nat" and xb :: string and y :: nat
  assume "i < length expression"
  {
    assume "parse_number expression i = Inr x2" and "(xb, y) = x2"
    then have "i < y" using adv [of expression i xb y] by simp
    then show "((expression, y, False, tokens @ [Number xb]), (expression, i, can_start_number, tokens))
        \<in> measure (\<lambda>(expression, i, can_start_number, tokens). length expression - i)"
      using \<open>i < length expression\<close> by simp
  }
  {
    assume "parse_number expression i = Inr x2" and "(xb, y) = x2"
    then have "i < y" using adv [of expression i xb y] by simp
    then show "((expression, y, False, tokens @ [Number xb]), (expression, i, can_start_number, tokens))
        \<in> measure (\<lambda>(expression, i, can_start_number, tokens). length expression - i)"
      using \<open>i < length expression\<close> by simp
  }
qed auto

declare tokenize_loop.simps [simp del]

definition tokenize :: "string \<Rightarrow> error + string token list" where
  "tokenize expression = tokenize_loop expression 0 True []"

subsection \<open>The calculator: conversion, postfix form, evaluation\<close>

text \<open>
  \<^verbatim>\<open>_dozenal_number_to_decimal\<close>: a \<^verbatim>\<open>Decimal\<close> is kept, an \<^verbatim>\<open>int\<close> becomes the
  \<^verbatim>\<open>Decimal\<close> of the same value, exactly. The source's branch for a float is dead code,
  as \<^verbatim>\<open>dozenal_to_decimal\<close> returns none.
\<close>

definition dozenal_number_to_decimal :: "nat \<Rightarrow> string \<Rightarrow> error + decimal" where
  "dozenal_number_to_decimal prec text =
     bind (dozenal_to_decimal prec text) (\<lambda>raw.
       case raw of
         DecimalNum d \<Rightarrow> Inr d
       | IntNum n \<Rightarrow> Inr (Decimal n 0))"

fun convert_numbers :: "nat \<Rightarrow> string token list \<Rightarrow> error + decimal token list" where
  "convert_numbers prec [] = Inr []"
| "convert_numbers prec (Number text # tokens) =
     bind (dozenal_number_to_decimal prec text) (\<lambda>d.
     bind (convert_numbers prec tokens) (\<lambda>converted. Inr (Number d # converted)))"
| "convert_numbers prec (Operator v # tokens) =
     bind (convert_numbers prec tokens) (\<lambda>converted. Inr (Operator v # converted))"
| "convert_numbers prec (LParen v # tokens) =
     bind (convert_numbers prec tokens) (\<lambda>converted. Inr (LParen v # converted))"
| "convert_numbers prec (RParen v # tokens) =
     bind (convert_numbers prec tokens) (\<lambda>converted. Inr (RParen v # converted))"

text \<open>\<^verbatim>\<open>_PRECEDENCE\<close>; a key that is not there raises \<^verbatim>\<open>KeyError\<close>.\<close>

definition PRECEDENCE :: "string \<rightharpoonup> nat" where
  "PRECEDENCE = [''+'' \<mapsto> 1, ''-'' \<mapsto> 1, ''*'' \<mapsto> 2, ''/'' \<mapsto> 2]"

definition precedence :: "string \<Rightarrow> error + nat" where
  "precedence v = (case PRECEDENCE v of None \<Rightarrow> Inl (KeyError v) | Some p \<Rightarrow> Inr p)"

text \<open>
  \<^verbatim>\<open>_to_postfix\<close>. The operator stack is a list whose head is the top of the stack
  (\<^verbatim>\<open>operators[-1]\<close>); the output grows at its end.

  On an operator (lines 152 to 157): pop to the output every operator on top of the stack
  whose precedence is at least the incoming one's.
\<close>

fun pop_higher ::
  "string \<Rightarrow> decimal token list \<Rightarrow> decimal token list
     \<Rightarrow> error + (decimal token list \<times> decimal token list)" where
  "pop_higher v (Operator top_op # operators) output =
     bind (precedence top_op) (\<lambda>ptop.
     bind (precedence v) (\<lambda>pv.
       if ptop \<ge> pv then pop_higher v operators (output @ [Operator top_op])
       else Inr (Operator top_op # operators, output)))"
| "pop_higher v operators output = Inr (operators, output)"

text \<open>On a right parenthesis (lines 167 to 171): pop to the output down to the left one.\<close>

fun pop_to_lparen ::
  "decimal token list \<Rightarrow> decimal token list
     \<Rightarrow> error + (decimal token list \<times> decimal token list)" where
  "pop_to_lparen [] output = Inl MismatchedParentheses"
| "pop_to_lparen (LParen v # operators) output = Inr (operators, output)"
| "pop_to_lparen (t # operators) output = pop_to_lparen operators (output @ [t])"

text \<open>At the end (lines 176 to 180): pop everything; a parenthesis left over is an error.\<close>

fun pop_all :: "decimal token list \<Rightarrow> decimal token list \<Rightarrow> error + decimal token list" where
  "pop_all [] output = Inr output"
| "pop_all (LParen v # operators) output = Inl MismatchedParentheses"
| "pop_all (RParen v # operators) output = Inl MismatchedParentheses"
| "pop_all (t # operators) output = pop_all operators (output @ [t])"

fun to_postfix_loop ::
  "decimal token list \<Rightarrow> decimal token list \<Rightarrow> decimal token list \<Rightarrow> error + decimal token list" where
  "to_postfix_loop [] operators output = pop_all operators output"
| "to_postfix_loop (Number d # tokens) operators output =
     to_postfix_loop tokens operators (output @ [Number d])"
| "to_postfix_loop (Operator v # tokens) operators output =
     bind (pop_higher v operators output) (\<lambda>(operators, output).
       to_postfix_loop tokens (Operator v # operators) output)"
| "to_postfix_loop (LParen v # tokens) operators output =
     to_postfix_loop tokens (LParen v # operators) output"
| "to_postfix_loop (RParen v # tokens) operators output =
     bind (pop_to_lparen operators output) (\<lambda>(operators, output).
       to_postfix_loop tokens operators output)"

definition to_postfix :: "decimal token list \<Rightarrow> error + decimal token list" where
  "to_postfix tokens = to_postfix_loop tokens [] []"

text \<open>
  \<^verbatim>\<open>_evaluate_postfix\<close>. The stack of values has its top at the head. Whatever is not a
  number is applied as an operator, by its text.
\<close>

definition apply_operator :: "nat \<Rightarrow> string \<Rightarrow> decimal \<Rightarrow> decimal \<Rightarrow> error + decimal" where
  "apply_operator prec v left right =
     (if v = ''+'' then dec_add prec left right
      else if v = ''-'' then dec_sub prec left right
      else if v = ''*'' then dec_mul prec left right
      else if v = ''/'' then dec_div prec left right
      else Inl (UnsupportedOperator v))"

fun token_text :: "decimal token \<Rightarrow> string" where
  "token_text (Operator v) = v"
| "token_text (LParen v) = v"
| "token_text (RParen v) = v"
| "token_text (Number d) = []"

text \<open>The body of the loop, for one token.\<close>

fun evaluate_token :: "nat \<Rightarrow> decimal token \<Rightarrow> decimal list \<Rightarrow> error + decimal list" where
  "evaluate_token prec (Number d) stack = Inr (d # stack)"
| "evaluate_token prec t stack =
     (case stack of
        right # left # rest \<Rightarrow>
          bind (apply_operator prec (token_text t) left right) (\<lambda>r. Inr (r # rest))
      | _ \<Rightarrow> Inl IncompleteExpression)"

fun evaluate_loop :: "nat \<Rightarrow> decimal token list \<Rightarrow> decimal list \<Rightarrow> error + decimal list" where
  "evaluate_loop prec [] stack = Inr stack"
| "evaluate_loop prec (t # postfix) stack =
     bind (evaluate_token prec t stack) (\<lambda>stack. evaluate_loop prec postfix stack)"

definition evaluate_postfix :: "nat \<Rightarrow> decimal token list \<Rightarrow> error + decimal" where
  "evaluate_postfix prec postfix =
     bind (evaluate_loop prec postfix []) (\<lambda>stack.
       case stack of [v] \<Rightarrow> Inr v | _ \<Rightarrow> Inl NotSingleValue)"

subsection \<open>\<^verbatim>\<open>calculate\<close>\<close>

record CalculatorResult =
  decimal :: decimal
  dozenal :: string

text \<open>
  \<^verbatim>\<open>calculate\<close> takes the context precision in force and returns the one it leaves; it
  assigns the precision only after its two checks. The default of \<^verbatim>\<open>frac_precision\<close> is 12.
\<close>

definition calculate :: "nat \<Rightarrow> string \<Rightarrow> int \<Rightarrow> (error + CalculatorResult) \<times> nat" where
  "calculate ctx expression frac_precision =
     (let expr = upper (strip expression) in
      if expr = [] then (Inl EmptyExpression, ctx)
      else if frac_precision < 0 then (Inl NegativeFracPrecision, ctx)
      else
        let prec = context_prec frac_precision in
        (bind (tokenize expr) (\<lambda>raw.
         bind (convert_numbers prec raw) (\<lambda>tokens.
         bind (to_postfix tokens) (\<lambda>postfix.
         bind (evaluate_postfix prec postfix) (\<lambda>result.
         bind (fst (decimal_to_dozenal prec (PyDecimal result) frac_precision)) (\<lambda>dozenal_value.
           Inr \<lparr>decimal = result, dozenal = dozenal_value\<rparr>))))), prec))"

subsection \<open>The digits the specification describes\<close>

text \<open>
  Following the specification's words (section 4.1), for comparison with \<open>digits_loop\<close>:
  the fractional digits of a fraction \<open>n / d\<close> with \<open>0 \<le> n < d\<close>, in exact arithmetic.
  Multiply the remaining fraction by 12, take the integer part as the next digit, subtract
  it, and stop when the remainder is zero or when \<open>k\<close> digits are out.
\<close>

fun spec_fraction_digits :: "nat \<Rightarrow> int \<Rightarrow> int \<Rightarrow> string" where
  "spec_fraction_digits 0 n d = []"
| "spec_fraction_digits (Suc k) n d =
     (let m = n * 12; digit = m div d; r = m - digit * d
      in DOZENAL_DIGITS ! nat digit # (if r = 0 then [] else spec_fraction_digits k r d))"

section \<open>Properties\<close>

subsection \<open>Integers in base 12\<close>

lemma digit_index_nth: "0 \<le> r \<Longrightarrow> r < 12 \<Longrightarrow> digit_index (DOZENAL_DIGITS ! nat r) = Some (nat r)"
proof -
  assume "0 \<le> r" "r < 12"
  then have "r = 0 \<or> r = 1 \<or> r = 2 \<or> r = 3 \<or> r = 4 \<or> r = 5 \<or> r = 6 \<or> r = 7 \<or> r = 8
      \<or> r = 9 \<or> r = 10 \<or> r = 11" by arith
  then show ?thesis
    by (auto simp: digit_index_def DOZENAL_DIGITS_def)
qed

lemma digit_nth_in: "0 \<le> r \<Longrightarrow> r < 12 \<Longrightarrow> DOZENAL_DIGITS ! nat r \<in> set DOZENAL_DIGITS"
  by (rule nth_mem) (simp add: DOZENAL_DIGITS_def)

lemma digit_props:
  "c \<in> set DOZENAL_DIGITS \<Longrightarrow> \<not> isspace c \<and> upper_char c = c \<and> c \<noteq> CHR ''.'' \<and> c \<noteq> CHR ''-''"
  by (auto simp: DOZENAL_DIGITS_def isspace_def upper_char_def)

lemma int_to_base12_loop_acc:
  "int_to_base12_loop n (acc @ ds) = acc @ int_to_base12_loop n ds"
proof (induction n ds arbitrary: acc rule: int_to_base12_loop.induct)
  case (1 n digits)
  show ?case
  proof (cases "n > 0")
    case True
    have "int_to_base12_loop n (acc @ digits)
          = int_to_base12_loop (n div 12) (acc @ (digits @ [DOZENAL_DIGITS ! nat (n mod 12)]))"
      using True by (subst int_to_base12_loop.simps) simp
    also have "\<dots> = acc @ int_to_base12_loop (n div 12) (digits @ [DOZENAL_DIGITS ! nat (n mod 12)])"
      using "1.IH" [OF True] .
    also have "\<dots> = acc @ int_to_base12_loop n digits"
      using True by (subst (2) int_to_base12_loop.simps) simp
    finally show ?thesis .
  next
    case False
    then show ?thesis by (simp add: int_to_base12_loop.simps)
  qed
qed

lemma int_to_base12_loop_step:
  "n > 0 \<Longrightarrow> int_to_base12_loop n [] = DOZENAL_DIGITS ! nat (n mod 12) # int_to_base12_loop (n div 12) []"
  using int_to_base12_loop_acc [of "n div 12" "[DOZENAL_DIGITS ! nat (n mod 12)]" "[]"]
  by (subst int_to_base12_loop.simps) simp

lemma int_to_base12_loop_nonpos: "n \<le> 0 \<Longrightarrow> int_to_base12_loop n [] = []"
  by (simp add: int_to_base12_loop.simps)

lemma int_to_base12_loop_digits:
  "set (int_to_base12_loop n []) \<subseteq> set DOZENAL_DIGITS"
proof (induction "nat n" arbitrary: n rule: less_induct)
  case less
  show ?case
  proof (cases "n > 0")
    case True
    then have "nat (n div 12) < nat n" by simp
    from less [OF this] True show ?thesis
      by (simp add: int_to_base12_loop_step digit_nth_in)
  next
    case False
    then show ?thesis by (simp add: int_to_base12_loop_nonpos)
  qed
qed

lemma int_from_base12_loop_snoc:
  "int_from_base12_loop (xs @ [c]) t = bind (int_from_base12_loop xs t) (\<lambda>t'. int_from_base12_loop [c] t')"
  by (induction xs arbitrary: t) (auto split: option.splits)

lemma int_from_to_loop:
  "0 \<le> n \<Longrightarrow> int_from_base12_loop (rev (int_to_base12_loop n [])) t
     = Inr (t * 12 ^ length (int_to_base12_loop n []) + n)"
proof (induction "nat n" arbitrary: n rule: less_induct)
  case less
  show ?case
  proof (cases "n > 0")
    case True
    then have lt: "nat (n div 12) < nat n" and nn: "0 \<le> n div 12" by simp_all
    have r: "0 \<le> n mod 12" "n mod 12 < 12" by simp_all
    show ?thesis
      using less(1) [OF lt nn] True
      by (simp add: int_to_base12_loop_step int_from_base12_loop_snoc digit_index_nth [OF r]
          algebra_simps)
  next
    case False
    with less(2) have "n = 0" by simp
    then show ?thesis by (simp add: int_to_base12_loop_nonpos)
  qed
qed

lemma int_from_to: "0 \<le> n \<Longrightarrow> int_from_base12 (int_to_base12 n) = Inr n"
  by (cases "n = 0")
     (simp_all add: int_from_base12_def int_to_base12_def int_from_to_loop digit_index_def DOZENAL_DIGITS_def)

lemma int_to_base12_digits: "set (int_to_base12 n) \<subseteq> set DOZENAL_DIGITS"
  using int_to_base12_loop_digits [of n]
  by (auto simp: int_to_base12_def DOZENAL_DIGITS_def)

lemma int_to_base12_nonempty: "0 \<le> n \<Longrightarrow> int_to_base12 n \<noteq> []"
  by (cases "n > 0") (auto simp: int_to_base12_def int_to_base12_loop_step)

lemma strip_id: "\<forall>c\<in>set s. \<not> isspace c \<Longrightarrow> strip s = s"
proof (cases s)
  case Nil
  then show ?thesis by (simp add: strip_def)
next
  case (Cons a as)
  assume h: "\<forall>c\<in>set s. \<not> isspace c"
  have 1: "dropWhile isspace s = s"
    using h Cons by simp
  have "rev s \<noteq> []" using Cons by simp
  then have "hd (rev s) \<in> set (rev s)" by (rule hd_in_set)
  then have "hd (rev s) \<in> set s" by simp
  with h have "\<not> isspace (hd (rev s))" by blast
  then have 2: "dropWhile isspace (rev s) = rev s"
    by (simp only: dropWhile_eq_self_iff) simp
  show ?thesis by (simp add: strip_def 1 2)
qed

lemma upper_id: "\<forall>c\<in>set s. upper_char c = c \<Longrightarrow> upper s = s"
  by (simp add: upper_def map_idI)

lemma split_dot_no_dot: "CHR ''.'' \<notin> set s \<Longrightarrow> split_dot s = [s]"
  by (induction s) auto

lemma sign_props: "\<not> isspace (CHR ''-'') \<and> upper_char (CHR ''-'') = CHR ''-''"
  by (simp add: isspace_def upper_char_def)

lemma dozenal_to_decimal_digits:
  assumes d: "set ds \<subseteq> set DOZENAL_DIGITS" and ne: "ds \<noteq> []"
  shows "dozenal_to_decimal prec ds = bind (int_from_base12 ds) (\<lambda>v. Inr (IntNum v))"
    and "dozenal_to_decimal prec (CHR ''-'' # ds) = bind (int_from_base12 ds) (\<lambda>v. Inr (IntNum (- v)))"
proof -
  have p: "\<forall>c\<in>set ds. \<not> isspace c \<and> upper_char c = c \<and> c \<noteq> CHR ''.'' \<and> c \<noteq> CHR ''-''"
    using d digit_props by blast
  then have "CHR ''.'' \<notin> set ds" by blast
  with p have s1: "strip ds = ds" "upper ds = ds" "split_dot ds = [ds]"
    by (simp_all add: strip_id upper_id split_dot_no_dot)
  have "hd ds \<in> set ds" using ne by simp
  then have hd: "hd ds \<noteq> CHR ''-''" using p by blast
  show "dozenal_to_decimal prec ds = bind (int_from_base12 ds) (\<lambda>v. Inr (IntNum v))"
    using ne hd by (simp add: dozenal_to_decimal_def s1 Let_def)
  have s2: "strip (CHR ''-'' # ds) = CHR ''-'' # ds" "upper (CHR ''-'' # ds) = CHR ''-'' # ds"
    using p sign_props by (simp_all add: strip_id upper_id)
  show "dozenal_to_decimal prec (CHR ''-'' # ds) = bind (int_from_base12 ds) (\<lambda>v. Inr (IntNum (- v)))"
    using ne by (simp add: dozenal_to_decimal_def s1 s2 Let_def)
qed

text \<open>
  Claim C1. For every integer \<open>n\<close> (negative, zero or positive) and every two
  precisions \<open>p\<close> and \<open>p'\<close>, \<^verbatim>\<open>decimal_to_dozenal(n, p)\<close> returns the same string as
  \<^verbatim>\<open>decimal_to_dozenal(n, p')\<close>, leaves the context alone, and \<^verbatim>\<open>dozenal_to_decimal\<close>
  of that string is the integer \<open>n\<close> again, at whatever context precision.
\<close>

theorem integer_round_trip:
  "\<exists>s. decimal_to_dozenal ctx (PyInt n) p = (Inr s, ctx)
      \<and> decimal_to_dozenal ctx (PyInt n) p' = (Inr s, ctx)
      \<and> dozenal_to_decimal prec s = Inr (IntNum n)"
proof -
  have d: "set (int_to_base12 \<bar>n\<bar>) \<subseteq> set DOZENAL_DIGITS"
    by (rule int_to_base12_digits)
  have ne: "int_to_base12 \<bar>n\<bar> \<noteq> []"
    by (simp add: int_to_base12_nonempty)
  have v: "int_from_base12 (int_to_base12 \<bar>n\<bar>) = Inr \<bar>n\<bar>"
    by (simp add: int_from_to)
  show ?thesis
    using dozenal_to_decimal_digits [OF d ne, of prec] v
    by (auto simp: decimal_to_dozenal_def)
qed

subsection \<open>Floats that are simple fractions\<close>

text \<open>
  Claim C2. \<^verbatim>\<open>decimal_to_dozenal(0.5, 6)\<close> is \<^verbatim>\<open>"0.6"\<close>, \<^verbatim>\<open>decimal_to_dozenal(0.25, 6)\<close> is
  \<^verbatim>\<open>"0.3"\<close> and \<^verbatim>\<open>decimal_to_dozenal(1/12, 6)\<close> is \<^verbatim>\<open>"0.1"\<close>, with no digit after them,
  whatever the context precision before the call. The floats are \<^verbatim>\<open>1 * 2**-1\<close>, \<^verbatim>\<open>1 * 2**-2\<close> and
  \<^verbatim>\<open>6004799503160661 * 2**-56\<close>; the last conjunct says that this one is the double nearest
  to one twelfth: a 53-bit mantissa within half a unit in the last place of \<^verbatim>\<open>2**56 / 12\<close>.
\<close>

theorem exact_fractions_from_floats:
  "decimal_to_dozenal ctx (PyFloat 1 (- 1)) 6 = (Inr ''0.6'', 28)
   \<and> decimal_to_dozenal ctx (PyFloat 1 (- 2)) 6 = (Inr ''0.3'', 28)
   \<and> decimal_to_dozenal ctx (PyFloat 6004799503160661 (- 56)) 6 = (Inr ''0.1'', 28)
   \<and> (2 ^ 52 \<le> (6004799503160661 :: int) \<and> (6004799503160661 :: int) < 2 ^ 53
        \<and> \<bar>12 * 6004799503160661 - 2 ^ 56\<bar> \<le> (6 :: int))"
proof -
  have a: "decimal_to_dozenal ctx (PyFloat 1 (- 1)) 6 = (Inr ''0.6'', 28)"
    by code_simp
  have b: "decimal_to_dozenal ctx (PyFloat 1 (- 2)) 6 = (Inr ''0.3'', 28)"
    by code_simp
  have c: "decimal_to_dozenal ctx (PyFloat 6004799503160661 (- 56)) 6 = (Inr ''0.1'', 28)"
    by code_simp
  have d: "2 ^ 52 \<le> (6004799503160661 :: int) \<and> (6004799503160661 :: int) < 2 ^ 53
        \<and> \<bar>12 * 6004799503160661 - 2 ^ 56\<bar> \<le> (6 :: int)"
    by simp
  from a b c d show ?thesis by blast
qed

subsection \<open>Precedence and associativity\<close>




subsection \<open>A sign before a parenthesis\<close>

text \<open>
  Claim C6. Where a number may start (\<^verbatim>\<open>can_start_number\<close> is true), a \<^verbatim>\<open>+\<close> or \<^verbatim>\<open>-\<close>
  at index \<open>i\<close> directly followed by \<^verbatim>\<open>(\<close> makes the tokenizer emit the number token
  \<^verbatim>\<open>"0"\<close> and then the sign as an operator token, and go on at index \<open>i + 1\<close> with the flag
  still true. \<^verbatim>\<open>calculate("-(1+1)")\<close>, at the default precision 12, returns the decimal
  \<open>-2\<close> and the dozenal string \<^verbatim>\<open>"-2"\<close>.
\<close>

theorem unary_sign_before_parenthesis:
  assumes "i + 1 < length expression"
    and "expression ! i = CHR ''+'' \<or> expression ! i = CHR ''-''"
    and "expression ! (i + 1) = CHR ''(''"
  shows "tokenize_loop expression i True tokens
         = tokenize_loop expression (i + 1) True
             (tokens @ [Number ''0'', Operator [expression ! i]])
         \<and> calculate ctx ''-(1+1)'' 12 = (Inr \<lparr>decimal = Decimal (- 2) 0, dozenal = ''-2''\<rparr>, 36)"
proof -
  have ns: "\<not> isspace (expression ! i)"
    using assms(2) by (auto simp: isspace_def)
  have t: "tokenize_loop expression i True tokens
         = tokenize_loop expression (i + 1) True
             (tokens @ [Number ''0'', Operator [expression ! i]])"
    using assms ns by (subst tokenize_loop.simps) (auto simp: Let_def)
  have c: "calculate ctx ''-(1+1)'' 12 = (Inr \<lparr>decimal = Decimal (- 2) 0, dozenal = ''-2''\<rparr>, 36)"
    by code_simp
  from t c show ?thesis by simp
qed

theorem unary_sign_before_parenthesis_witness:
  "0 + 1 < length ''-(1+1)'' \<and> ''-(1+1)'' ! 0 = CHR ''-'' \<and> ''-(1+1)'' ! (0 + 1) = CHR ''(''
   \<and> tokenize_loop ''-(1+1)'' 0 True []
       = tokenize_loop ''-(1+1)'' (0 + 1) True ([] @ [Number ''0'', Operator [''-(1+1)'' ! 0]])
   \<and> tokenize ''-(1+1)'' = Inr [Number ''0'', Operator ''-'', LParen ''('', Number ''1'',
        Operator ''+'', Number ''1'', RParen '')'']"
proof -
  have h: "0 + 1 < length ''-(1+1)''" "''-(1+1)'' ! 0 = CHR ''+'' \<or> ''-(1+1)'' ! 0 = CHR ''-''"
    "''-(1+1)'' ! (0 + 1) = CHR ''(''"
    by simp_all
  have t: "tokenize ''-(1+1)'' = Inr [Number ''0'', Operator ''-'', LParen ''('', Number ''1'',
        Operator ''+'', Number ''1'', RParen '')'']"
    by code_simp
  show ?thesis
    using unary_sign_before_parenthesis [OF h, of "[]" 28] t by simp
qed

subsection \<open>A negative precision\<close>

text \<open>
  Claim C7, as amended. For every negative \<open>p\<close>, \<^verbatim>\<open>calculate(expr, p)\<close> raises: the
  negative-precision error when the expression is not blank, and the empty-expression
  error, which is checked first, when it is; the context is left as it was.
  \<^verbatim>\<open>decimal_to_dozenal(v, p)\<close> does not reject a negative \<open>p\<close>: it does exactly what it does
  for the precision 0, for every argument \<open>v\<close>, and for an integer it returns the sign and
  the base-12 digits.
\<close>

theorem negative_precision:
  assumes "p < 0"
  shows "calculate ctx expression p
           = (if upper (strip expression) = [] then Inl EmptyExpression
              else Inl NegativeFracPrecision, ctx)
         \<and> decimal_to_dozenal ctx v p = decimal_to_dozenal ctx v 0
         \<and> decimal_to_dozenal ctx (PyInt n) p
           = (Inr ((if n < 0 then ''-'' else []) @ int_to_base12 \<bar>n\<bar>), ctx)"
proof -
  have cp: "context_prec p = context_prec 0"
    using assms by (simp add: context_prec_def)
  have r: "render_decimal prec d p = render_decimal prec d 0" for prec d
    using assms by (simp add: render_decimal_def)
  have "decimal_to_dozenal ctx v p = decimal_to_dozenal ctx v 0"
    by (cases v) (simp_all add: decimal_to_dozenal_def cp r split: sum.splits)
  then show ?thesis
    using assms by (simp add: calculate_def decimal_to_dozenal_def)
qed

theorem negative_precision_witness:
  "(- 1 :: int) < 0
   \<and> calculate 28 ''1+1'' (- 1) = (Inl NegativeFracPrecision, 28)
   \<and> calculate 28 ''  '' (- 1) = (Inl EmptyExpression, 28)
   \<and> decimal_to_dozenal 28 (PyDecimal (Decimal 55 (- 1))) (- 1)
       = decimal_to_dozenal 28 (PyDecimal (Decimal 55 (- 1))) 0"
proof -
  have h: "(- 1 :: int) < 0" by simp
  have a: "upper (strip ''1+1'') \<noteq> []" "upper (strip ''  '') = []"
    by code_simp+
  show ?thesis
    using negative_precision [OF h, of 28 "''1+1''" "PyDecimal (Decimal 55 (- 1))" 0]
      negative_precision [OF h, of 28 "''  ''" "PyDecimal (Decimal 55 (- 1))" 0] a
    by simp
qed

text \<open>
  The claim as stated fails: \<^verbatim>\<open>decimal_to_dozenal(5, -1)\<close> returns \<^verbatim>\<open>"5"\<close> and
  \<^verbatim>\<open>decimal_to_dozenal(Decimal("5.5"), -1)\<close> returns \<^verbatim>\<open>"5"\<close>; neither raises.
\<close>

theorem negative_precision_counterexample:
  "\<not> is_error (fst (decimal_to_dozenal 28 (PyInt 5) (- 1)))
   \<and> decimal_to_dozenal 28 (PyInt 5) (- 1) = (Inr ''5'', 28)
   \<and> decimal_to_dozenal 28 (PyDecimal (Decimal 55 (- 1))) (- 1) = (Inr ''5'', 28)"
  by code_simp

subsection \<open>Division by zero\<close>





subsection \<open>A literal with a plus sign\<close>

lemma scan_digits_props:
  "i \<le> scan_digits e i \<and> scan_digits e i \<le> max i (length e)
   \<and> (\<forall>k. i \<le> k \<and> k < scan_digits e i \<longrightarrow> e ! k \<in> set DOZENAL_DIGITS)"
proof (induction e i rule: scan_digits.induct)
  case (1 e i)
  show ?case
  proof (cases "i < length e \<and> e ! i \<in> set DOZENAL_DIGITS")
    case True
    then have s: "scan_digits e i = scan_digits e (i + 1)"
      by (subst scan_digits.simps) simp
    have ih: "i + 1 \<le> scan_digits e (i + 1) \<and> scan_digits e (i + 1) \<le> max (i + 1) (length e)
       \<and> (\<forall>k. i + 1 \<le> k \<and> k < scan_digits e (i + 1) \<longrightarrow> e ! k \<in> set DOZENAL_DIGITS)"
      using "1.IH" True by simp
    have "e ! k \<in> set DOZENAL_DIGITS" if "i \<le> k" "k < scan_digits e (i + 1)" for k
    proof (cases "k = i")
      case True
      with \<open>i < length e \<and> e ! i \<in> set DOZENAL_DIGITS\<close> show ?thesis by simp
    next
      case False
      with that ih show ?thesis by simp
    qed
    with ih True show ?thesis
      unfolding s by auto
  next
    case False
    then have "scan_digits e i = i"
      by (subst scan_digits.simps) auto
    then show ?thesis by auto
  qed
qed

lemma length_split_dot: "length (split_dot s) = Suc (count_list s CHR ''.'')"
  by (induction s) (auto split: list.splits)

lemma split_dot_nonempty: "split_dot s \<noteq> []"
  by (induction s) (auto split: list.splits)

lemma hd_split_dot_plus: "hd (split_dot (CHR ''+'' # body)) = CHR ''+'' # hd (split_dot body)"
  using split_dot_nonempty [of body] by (cases "split_dot body") auto

lemma count_list_le_one:
  "(\<forall>k < length s. k \<noteq> m \<longrightarrow> s ! k \<noteq> c) \<Longrightarrow> count_list s c \<le> 1"
proof (induction s arbitrary: m)
  case Nil
  show ?case by simp
next
  case (Cons x xs)
  show ?case
  proof (cases m)
    case 0
    have "\<forall>y \<in> set xs. y \<noteq> c"
    proof
      fix y assume "y \<in> set xs"
      then obtain k where "k < length xs" "xs ! k = y" by (auto simp: in_set_conv_nth)
      with Cons.prems [rule_format, of "Suc k"] 0 show "y \<noteq> c" by auto
    qed
    then have "c \<notin> set xs" by blast
    then have "count_list xs c = 0" by (simp add: count_list_0_iff)
    then show ?thesis by simp
  next
    case (Suc m')
    have x: "x \<noteq> c" using Cons.prems [rule_format, of 0] Suc by simp
    have "\<forall>k < length xs. k \<noteq> m' \<longrightarrow> xs ! k \<noteq> c"
      using Cons.prems Suc by auto
    from Cons.IH [OF this] x show ?thesis by simp
  qed
qed

lemma plus_literal:
  assumes "upper (strip (CHR ''+'' # body)) = CHR ''+'' # body"
    and "count_list body CHR ''.'' \<le> 1"
  shows "dozenal_to_decimal prec (CHR ''+'' # body) = Inl (InvalidDigit CHR ''+'')"
proof -
  have len: "\<not> length (split_dot (CHR ''+'' # body)) > 2"
    using assms(2) by (simp add: length_split_dot del: split_dot.simps)
  have di: "digit_index CHR ''+'' = None"
    by (simp add: digit_index_def DOZENAL_DIGITS_def)
  show ?thesis
    using len di
    by (simp add: dozenal_to_decimal_def assms(1) Let_def hd_split_dot_plus int_from_base12_def
        del: split_dot.simps)
qed

lemma parsed_plus_literal:
  assumes pn: "parse_number e i = Inr (tok, j)" and plus: "e ! i = CHR ''+''"
  shows "dozenal_to_decimal prec tok = Inl (InvalidDigit CHR ''+'')"
proof -
  define i1 where "i1 = scan_digits e (i + 1)"
  define hp where "hp = (i1 < length e \<and> e ! i1 = CHR ''.'')"
  define i2 where "i2 = (if hp then scan_digits e (i1 + 1) else i1)"
  have il: "i < length e"
    using pn by (auto simp: parse_number_def split: if_splits)
  have tok: "tok = take (i2 - i) (drop i e)" and j: "j = i2"
    using pn plus il
    by (auto simp: parse_number_def Let_def i1_def hp_def i2_def split: if_splits)
  have s1: "i + 1 \<le> i1" "i1 \<le> length e"
    "\<And>k. i + 1 \<le> k \<Longrightarrow> k < i1 \<Longrightarrow> e ! k \<in> set DOZENAL_DIGITS"
    using scan_digits_props [of "i + 1" e] il by (auto simp: i1_def)
  have s2: "i1 \<le> i2" "i2 \<le> length e"
    "\<And>k. i1 + 1 \<le> k \<Longrightarrow> k < i2 \<Longrightarrow> e ! k \<in> set DOZENAL_DIGITS"
    using scan_digits_props [of "i1 + 1" e] s1
    by (auto simp: i2_def hp_def split: if_splits)
  have len: "length tok = i2 - i"
    using s1 s2 by (simp add: tok)
  have nth: "tok ! k = e ! (i + k)" if "k < i2 - i" for k
    using that s2 by (simp add: tok)
  have cases: "tok ! k = CHR ''+'' \<or> tok ! k \<in> set DOZENAL_DIGITS \<or> (k = i1 - i \<and> tok ! k = CHR ''.'')"
    if "k < length tok" for k
  proof -
    have k: "k < i2 - i" using that len by simp
    consider "k = 0" | "0 < k" "i + k < i1" | "i + k = i1" | "i1 < i + k"
      by linarith
    then show ?thesis
    proof cases
      case 1
      then show ?thesis using nth [OF k] plus by simp
    next
      case 2
      then show ?thesis using nth [OF k] s1(3) [of "i + k"] by simp
    next
      case 3
      then have "i1 < i2" using k by simp
      then have hp using s2 by (auto simp: i2_def split: if_splits)
      then have "e ! i1 = CHR ''.''" by (simp add: hp_def)
      then show ?thesis using nth [OF k] 3 by auto
    next
      case 4
      then show ?thesis using nth [OF k] s2(3) [of "i + k"] k by simp
    qed
  qed
  have dig: "c \<in> set DOZENAL_DIGITS \<Longrightarrow> \<not> isspace c \<and> upper_char c = c \<and> c \<noteq> CHR ''.''" for c
    by (auto simp: DOZENAL_DIGITS_def isspace_def upper_char_def)
  have other: "\<not> isspace CHR ''+'' \<and> upper_char CHR ''+'' = CHR ''+'' \<and> \<not> isspace CHR ''.''
      \<and> upper_char CHR ''.'' = CHR ''.''"
    by (simp add: isspace_def upper_char_def)
  have all: "\<forall>c \<in> set tok. \<not> isspace c \<and> upper_char c = c"
  proof
    fix c assume "c \<in> set tok"
    then obtain k where "k < length tok" "tok ! k = c" by (auto simp: in_set_conv_nth)
    with cases [of k] dig [of c] other show "\<not> isspace c \<and> upper_char c = c" by auto
  qed
  have ne: "tok \<noteq> []" using len s1 s2 by auto
  have "0 < i2 - i" using ne len by (cases tok) auto
  then have "tok ! 0 = CHR ''+''" using nth [of 0] plus by simp
  then have hd: "hd tok = CHR ''+''"
    using ne by (simp add: hd_conv_nth)
  obtain body where body: "tok = CHR ''+'' # body"
    using ne hd by (cases tok) auto
  have strip: "strip tok = tok"
  proof -
    have 1: "dropWhile isspace tok = tok" using all ne by (cases tok) auto
    have "rev tok \<noteq> []" using ne by simp
    then have "hd (rev tok) \<in> set (rev tok)" by (rule hd_in_set)
    with all have "\<not> isspace (hd (rev tok))" by simp
    then have 2: "dropWhile isspace (rev tok) = rev tok"
      by (simp only: dropWhile_eq_self_iff) simp
    show ?thesis by (simp add: strip_def 1 2)
  qed
  have up: "upper tok = tok"
    using all by (simp add: upper_def map_idI)
  have "\<forall>k < length tok. k \<noteq> i1 - i \<longrightarrow> tok ! k \<noteq> CHR ''.''"
  proof (intro allI impI)
    fix k assume "k < length tok" "k \<noteq> i1 - i"
    with cases [of k] have "tok ! k = CHR ''+'' \<or> tok ! k \<in> set DOZENAL_DIGITS" by blast
    then show "tok ! k \<noteq> CHR ''.''" using dig [of "tok ! k"] by auto
  qed
  then have "count_list tok CHR ''.'' \<le> 1" by (rule count_list_le_one)
  then have cnt: "count_list body CHR ''.'' \<le> 1" by (simp add: body)
  show ?thesis
    using plus_literal [of body prec] strip up cnt by (simp add: body)
qed


lemma convert_numbers_append:
  "convert_numbers prec (xs @ ys)
   = bind (convert_numbers prec xs) (\<lambda>a. bind (convert_numbers prec ys) (\<lambda>b. Inr (a @ b)))"
proof (induction xs)
  case Nil
  show ?case by (cases "convert_numbers prec ys") simp_all
next
  case (Cons t xs)
  show ?case
  proof (cases t)
    case (Number lit)
    show ?thesis
      by (cases "dozenal_number_to_decimal prec lit"; cases "convert_numbers prec xs";
          cases "convert_numbers prec ys") (simp_all add: Number Cons.IH)
  next
    case (Operator v)
    show ?thesis
      by (cases "convert_numbers prec xs"; cases "convert_numbers prec ys")
         (simp_all add: Operator Cons.IH)
  next
    case (LParen v)
    show ?thesis
      by (cases "convert_numbers prec xs"; cases "convert_numbers prec ys")
         (simp_all add: LParen Cons.IH)
  next
    case (RParen v)
    show ?thesis
      by (cases "convert_numbers prec xs"; cases "convert_numbers prec ys")
         (simp_all add: RParen Cons.IH)
  qed
qed

text \<open>
  Claim C10. Where a number may start, a \<^verbatim>\<open>+\<close> at index \<open>i\<close> that is not directly followed
  by \<^verbatim>\<open>(\<close> starts a signed literal: if \<^verbatim>\<open>_parse_number\<close> accepts it, the tokenizer emits it
  as a number token, sign included. \<^verbatim>\<open>dozenal_to_decimal\<close> of such a token raises the
  invalid-digit error for \<^verbatim>\<open>+\<close>, at any context precision, and so does \<^verbatim>\<open>calculate\<close> for
  every expression (with \<open>p \<ge> 0\<close>) whose tokens hold such a literal after literals that
  decode. \<^verbatim>\<open>calculate("+2")\<close> and \<^verbatim>\<open>calculate("1*+2")\<close> raise that error, while
  \<^verbatim>\<open>calculate("-2")\<close> and \<^verbatim>\<open>calculate("1*-2")\<close> return \<open>-2\<close>.
\<close>

theorem plus_signed_literal_rejected:
  assumes "0 \<le> p"
    and "i < length x" and "x ! i = CHR ''+''"
    and "\<not> (i + 1 < length x \<and> x ! (i + 1) = CHR ''('')"
    and "parse_number x i = Inr (tok, j)"
    and "tokenize (upper (strip expression)) = Inr (pre @ Number tok # post)"
    and "convert_numbers (context_prec p) pre = Inr converted"
  shows "tokenize_loop x i True tokens = tokenize_loop x j False (tokens @ [Number tok])
         \<and> dozenal_to_decimal prec tok = Inl (InvalidDigit CHR ''+'')
         \<and> calculate ctx expression p = (Inl (InvalidDigit CHR ''+''), context_prec p)
         \<and> calculate ctx ''+2'' 12 = (Inl (InvalidDigit CHR ''+''), 36)
         \<and> calculate ctx ''1*+2'' 12 = (Inl (InvalidDigit CHR ''+''), 36)
         \<and> calculate ctx ''-2'' 12 = (Inr \<lparr>decimal = Decimal (- 2) 0, dozenal = ''-2''\<rparr>, 36)
         \<and> calculate ctx ''1*-2'' 12 = (Inr \<lparr>decimal = Decimal (- 2) 0, dozenal = ''-2''\<rparr>, 36)"
proof -
  have ns: "\<not> isspace (x ! i)"
    using assms(3) by (simp add: isspace_def)
  have t: "tokenize_loop x i True tokens = tokenize_loop x j False (tokens @ [Number tok])"
    using assms(2-5) ns by (subst tokenize_loop.simps) (auto simp: Let_def)
  have d: "dozenal_to_decimal prec tok = Inl (InvalidDigit CHR ''+'')" for prec
    using assms(5) assms(3) by (rule parsed_plus_literal)
  have ne: "upper (strip expression) \<noteq> []"
  proof
    assume "upper (strip expression) = []"
    then have "tokenize (upper (strip expression)) = Inr []"
      by (simp add: tokenize_def tokenize_loop.simps)
    with assms(6) show False by simp
  qed
  have cn: "convert_numbers (context_prec p) (pre @ Number tok # post) = Inl (InvalidDigit CHR ''+'')"
    using assms(7) d [of "context_prec p"]
    by (simp add: convert_numbers_append dozenal_number_to_decimal_def)
  have c: "calculate ctx expression p = (Inl (InvalidDigit CHR ''+''), context_prec p)"
    using assms(1) ne assms(6) cn by (simp add: calculate_def Let_def)
  have e1: "calculate ctx ''+2'' 12 = (Inl (InvalidDigit CHR ''+''), 36)"
    by code_simp
  have e2: "calculate ctx ''1*+2'' 12 = (Inl (InvalidDigit CHR ''+''), 36)"
    by code_simp
  have e3: "calculate ctx ''-2'' 12 = (Inr \<lparr>decimal = Decimal (- 2) 0, dozenal = ''-2''\<rparr>, 36)"
    by code_simp
  have e4: "calculate ctx ''1*-2'' 12 = (Inr \<lparr>decimal = Decimal (- 2) 0, dozenal = ''-2''\<rparr>, 36)"
    by code_simp
  from t d c e1 e2 e3 e4 show ?thesis by blast
qed

theorem plus_signed_literal_rejected_witness:
  "(0 :: int) \<le> 12 \<and> 2 < length ''1*+2'' \<and> ''1*+2'' ! 2 = CHR ''+''
   \<and> \<not> (2 + 1 < length ''1*+2'' \<and> ''1*+2'' ! (2 + 1) = CHR ''('')
   \<and> parse_number ''1*+2'' 2 = Inr (''+2'', 4)
   \<and> tokenize (upper (strip ''1*+2'')) = Inr ([Number ''1'', Operator ''*''] @ Number ''+2'' # [])
   \<and> convert_numbers (context_prec 12) [Number ''1'', Operator ''*'']
       = Inr [Number (Decimal 1 0), Operator ''*'']
   \<and> dozenal_to_decimal 28 ''+2'' = Inl (InvalidDigit CHR ''+'')
   \<and> calculate 28 ''1*+2'' 12 = (Inl (InvalidDigit CHR ''+''), context_prec 12)"
proof -
  have h1: "(0 :: int) \<le> 12" by simp
  have h2: "2 < length ''1*+2''" by simp
  have h3: "''1*+2'' ! 2 = CHR ''+''" by simp
  have h4: "\<not> (2 + 1 < length ''1*+2'' \<and> ''1*+2'' ! (2 + 1) = CHR ''('')" by simp
  have h5: "parse_number ''1*+2'' 2 = Inr (''+2'', 4)" by code_simp
  have h6: "tokenize (upper (strip ''1*+2'')) = Inr ([Number ''1'', Operator ''*''] @ Number ''+2'' # [])"
    by code_simp
  have h7: "convert_numbers (context_prec 12) [Number ''1'', Operator ''*'']
       = Inr [Number (Decimal 1 0), Operator ''*'']"
    by code_simp
  show ?thesis
    using plus_signed_literal_rejected [OF h1 h2 h3 h4 h5 h6 h7, of "[]" 28 28] h1 h2 h3 h4 h5 h6 h7
    by simp
qed

subsection \<open>Rendering at the limit of the precision\<close>

text \<open>
  Claim C5, at an input where the code departs from it. The value
  \<^verbatim>\<open>Decimal("0.9999999999999999999999999999")\<close> (28 nines) is not an integer, and with
  exact arithmetic its first six dozenal digits are \<^verbatim>\<open>EEEEEE\<close>. The code multiplies by 12
  at the context precision of 28 digits, which rounds the product up to 12, takes 12 as the
  digit and raises \<^verbatim>\<open>IndexError\<close> at \<^verbatim>\<open>_DOZENAL_DIGITS[12]\<close>: nothing is emitted.
\<close>

theorem rendering_raises_at_digit_twelve:
  "decimal_to_dozenal ctx (PyDecimal (Decimal 9999999999999999999999999999 (- 28))) 6
     = (Inl IndexError, 28)
   \<and> spec_fraction_digits 6 9999999999999999999999999999 (10 ^ 28) = ''EEEEEE''
   \<and> dec_mul 28 (Decimal 9999999999999999999999999999 (- 28)) (Decimal 12 0)
     = Inr (Decimal 1200000000000000000000000000 (- 26))"
proof -
  have a: "decimal_to_dozenal ctx (PyDecimal (Decimal 9999999999999999999999999999 (- 28))) 6
     = (Inl IndexError, 28)"
    by code_simp
  have b: "spec_fraction_digits 6 9999999999999999999999999999 (10 ^ 28) = ''EEEEEE''"
    by code_simp
  have c: "dec_mul 28 (Decimal 9999999999999999999999999999 (- 28)) (Decimal 12 0)
     = Inr (Decimal 1200000000000000000000000000 (- 26))"
    by code_simp
  from a b c show ?thesis by blast
qed

subsection \<open>Rendering a decoded value at a higher precision\<close>

text \<open>
  Claim C8, at an input where the code departs from it. The string \<^verbatim>\<open>"0.1"\<close> stands for one
  twelfth, whose dozenal expansion ends after one digit. In a fresh context (precision 28)
  \<^verbatim>\<open>dozenal_to_decimal("0.1")\<close> is the 28-digit quotient \<^verbatim>\<open>0.08333333333333333333333333333\<close>;
  rendered at the precision 1 it gives \<^verbatim>\<open>"0.1"\<close>, and rendered at the precision 12 (the
  default) it gives \<^verbatim>\<open>"0.0EEEEEEEEEEE"\<close>.
\<close>

theorem exact_value_gains_digits:
  "dozenal_to_decimal 28 ''0.1'' = Inr (DecimalNum (Decimal 8333333333333333333333333333 (- 29)))
   \<and> decimal_to_dozenal 28 (of_number (DecimalNum (Decimal 8333333333333333333333333333 (- 29)))) 1
     = (Inr ''0.1'', 28)
   \<and> decimal_to_dozenal 28 (of_number (DecimalNum (Decimal 8333333333333333333333333333 (- 29)))) 12
     = (Inr ''0.0EEEEEEEEEEE'', 36)
   \<and> spec_fraction_digits 12 1 12 = ''1''"
proof -
  have a: "dozenal_to_decimal 28 ''0.1'' = Inr (DecimalNum (Decimal 8333333333333333333333333333 (- 29)))"
    by code_simp
  have b: "decimal_to_dozenal 28 (of_number (DecimalNum (Decimal 8333333333333333333333333333 (- 29)))) 1
     = (Inr ''0.1'', 28)"
    by code_simp
  have c: "decimal_to_dozenal 28 (of_number (DecimalNum (Decimal 8333333333333333333333333333 (- 29)))) 12
     = (Inr ''0.0EEEEEEEEEEE'', 36)"
    by code_simp
  have d: "spec_fraction_digits 12 1 12 = ''1''"
    by code_simp
  from a b c d show ?thesis by blast
qed

end
